theory Spec2Isabelle
  imports Complex_Main
begin

section \<open>JavaScript values\<close>

text \<open>
  The server of \<^verbatim>\<open>src/index.ts\<close> works on untyped JavaScript values: the parsed request
  body, the parsed reply of the vision endpoint and the objects it serialises. A value is
  modelled by \<open>jsval\<close>; an object is the list of its own properties in insertion order.
  Strings are lists of \<open>char\<close>, so the model covers strings whose code units are below 256;
  every string literal of the source is ASCII. A number is the rational it denotes.
\<close>

datatype jsval =
    JUndefined
  | JNull
  | JBool bool
  | JNum rat
  | JStr string
  | JArr "jsval list"
  | JObj "(string \<times> jsval) list"

text \<open>An exception is an \<open>Error\<close> object; the handlers only read its \<open>message\<close>.\<close>

datatype js_error = JsError (message: string)

text \<open>\<open>!v\<close> is \<open>\<not> truthy v\<close>.\<close>

fun truthy :: "jsval \<Rightarrow> bool" where
  "truthy JUndefined = False"
| "truthy JNull = False"
| "truthy (JBool b) = b"
| "truthy (JNum r) = (r \<noteq> 0)"
| "truthy (JStr s) = (s \<noteq> [])"
| "truthy (JArr xs) = True"
| "truthy (JObj kvs) = True"

definition nullish :: "jsval \<Rightarrow> bool" where
  "nullish v = (v = JUndefined \<or> v = JNull)"

text \<open>
  \<open>js_prop v k\<close> is \<open>v.k\<close> for a value \<open>v\<close> that is neither \<open>undefined\<close> nor \<open>null\<close>, for the
  property names the source reads (\<open>jsonrpc\<close>, \<open>id\<close>, \<open>method\<close>, \<open>params\<close>, \<open>name\<close>,
  \<open>arguments\<close>, \<open>imageUrl\<close>, \<open>image\<close>, \<open>choices\<close>, \<open>message\<close>, \<open>content\<close>): none of them is
  inherited from a prototype, so only an object has them, as own properties.
\<close>

fun js_prop :: "jsval \<Rightarrow> string \<Rightarrow> jsval" where
  "js_prop (JObj kvs) k = (case map_of kvs k of None \<Rightarrow> JUndefined | Some v \<Rightarrow> v)"
| "js_prop v k = JUndefined"

text \<open>\<open>get_prop v k\<close> is the plain access \<open>v.k\<close>, a TypeError on \<open>undefined\<close> and \<open>null\<close>.\<close>

definition get_prop :: "jsval \<Rightarrow> string \<Rightarrow> js_error + jsval" where
  "get_prop v k =
     (if nullish v
      then Inl (JsError (''Cannot read properties of '' @ (if v = JNull then ''null'' else ''undefined'')
                         @ '' (reading '' @ [CHR 0x27] @ k @ [CHR 0x27] @ '')''))
      else Inr (js_prop v k))"

text \<open>\<open>opt_prop v k\<close> is the optional chain \<open>v?.k\<close>.\<close>

definition opt_prop :: "jsval \<Rightarrow> string \<Rightarrow> jsval" where
  "opt_prop v k = (if nullish v then JUndefined else js_prop v k)"

text \<open>\<open>opt_index0 v\<close> is \<open>v?.[0]\<close>: the first element of an array, the first code unit of a
  string, the property \<open>"0"\<close> of an object.\<close>

fun index0 :: "jsval \<Rightarrow> jsval" where
  "index0 (JArr xs) = (case xs of [] \<Rightarrow> JUndefined | x # _ \<Rightarrow> x)"
| "index0 (JStr s) = (case s of [] \<Rightarrow> JUndefined | c # _ \<Rightarrow> JStr [c])"
| "index0 (JObj kvs) = (case map_of kvs ''0'' of None \<Rightarrow> JUndefined | Some v \<Rightarrow> v)"
| "index0 v = JUndefined"

definition opt_index0 :: "jsval \<Rightarrow> jsval" where
  "opt_index0 v = (if nullish v then JUndefined else index0 v)"

subsection \<open>Conversion to string in template literals\<close>

definition digit_char :: "nat \<Rightarrow> char" where
  "digit_char d = ''0123456789'' ! d"

fun show_nat :: "nat \<Rightarrow> string" where
  "show_nat n = (if n < 10 then [digit_char n] else show_nat (n div 10) @ [digit_char (n mod 10)])"

declare show_nat.simps [simp del]

fun join_comma :: "string list \<Rightarrow> string" where
  "join_comma [] = []"
| "join_comma [s] = s"
| "join_comma (s # t # ss) = s @ '','' @ join_comma (t # ss)"

text \<open>The conversions of a list of values, from the left; the first exception ends them.\<close>

fun collect :: "(js_error + 'a) list \<Rightarrow> js_error + 'a list" where
  "collect [] = Inr []"
| "collect (x # xs) =
     (case x of
        Inl e \<Rightarrow> Inl e
      | Inr a \<Rightarrow> (case collect xs of Inl e \<Rightarrow> Inl e | Inr as \<Rightarrow> Inr (a # as)))"

text \<open>
  \<open>js_to_string ns v\<close> is the conversion of \<open>v\<close> to a string in a template literal
  \<open>`${v}`\<close>, for a value that \<open>JSON.parse\<close> produced. \<open>ns\<close> is the runtime's conversion
  of a number. An array is the conversions of its elements joined by commas, \<open>undefined\<close>
  and \<open>null\<close> elements being empty. An object is \<open>[object Object]\<close> through the inherited
  \<open>toString\<close>; an own property \<open>toString\<close> hides the inherited one and is never a
  function, neither an own \<open>valueOf\<close> nor the inherited one gives a primitive value, and
  the conversion throws a TypeError.
\<close>

fun js_to_string :: "(rat \<Rightarrow> string) \<Rightarrow> jsval \<Rightarrow> js_error + string" where
  "js_to_string ns JUndefined = Inr ''undefined''"
| "js_to_string ns JNull = Inr ''null''"
| "js_to_string ns (JBool b) = Inr (if b then ''true'' else ''false'')"
| "js_to_string ns (JNum r) = Inr (ns r)"
| "js_to_string ns (JStr s) = Inr s"
| "js_to_string ns (JArr xs) =
     (case collect (map (\<lambda>x. if nullish x then Inr [] else js_to_string ns x) xs) of
        Inl e \<Rightarrow> Inl e
      | Inr ss \<Rightarrow> Inr (join_comma ss))"
| "js_to_string ns (JObj kvs) =
     (if map_of kvs ''toString'' \<noteq> None
      then Inl (JsError ''Cannot convert object to primitive value'')
      else Inr ''[object Object]'')"

subsection \<open>Cleaning the model's reply\<close>

text \<open>
  \<open>content.replace(/```json\n?|```\n?/g, '')\<close> scans from the left and deletes every match:
  three backticks followed by \<open>json\<close> when it is there (first alternative), then one
  newline when it is there.
\<close>

definition drop_newline :: "string \<Rightarrow> string" where
  "drop_newline s = (case s of [] \<Rightarrow> [] | c # cs \<Rightarrow> if c = CHR 0x0A then cs else c # cs)"

definition fence_match :: "string \<Rightarrow> string option" where
  "fence_match s =
     (if take 7 s = ''```json'' then Some (drop_newline (drop 7 s))
      else if take 3 s = ''```'' then Some (drop_newline (drop 3 s))
      else None)"

function replace_fences :: "string \<Rightarrow> string" where
  "replace_fences s =
     (case s of
        [] \<Rightarrow> []
      | c # cs \<Rightarrow> (case fence_match s of
                     Some rest \<Rightarrow> replace_fences rest
                   | None \<Rightarrow> c # replace_fences cs))"
  by pat_completeness auto

lemma drop_newline_length: "length (drop_newline s) \<le> length s"
  by (simp add: drop_newline_def split: list.split)

lemma fence_match_shorter: "fence_match s = Some rest \<Longrightarrow> length rest < length s"
proof -
  assume a: "fence_match s = Some rest"
  have l7: "length (drop_newline (drop 7 s)) \<le> length s - 7"
    using drop_newline_length [of "drop 7 s"] by simp
  have l3: "length (drop_newline (drop 3 s)) \<le> length s - 3"
    using drop_newline_length [of "drop 3 s"] by simp
  show ?thesis
  proof (cases "take 7 s = ''```json''")
    case True
    then have "length (take 7 s) = 7" by simp
    then have "7 \<le> length s" by simp
    with a True l7 show ?thesis by (simp add: fence_match_def)
  next
    case False
    with a have t: "take 3 s = ''```''" and r: "rest = drop_newline (drop 3 s)"
      by (auto simp: fence_match_def split: if_splits)
    from t have "length (take 3 s) = 3" by simp
    then have "3 \<le> length s" by simp
    with r l3 show ?thesis by simp
  qed
qed

termination replace_fences
  by (relation "measure length") (auto dest: fence_match_shorter)

declare replace_fences.simps [simp del]

text \<open>\<open>trim\<close> removes white space and line terminators at both ends; below code unit 256
  these are tab, line feed, vertical tab, form feed, carriage return, space and no-break
  space.\<close>

definition is_space :: "char \<Rightarrow> bool" where
  "is_space c = (c \<in> set [CHR 0x09, CHR 0x0A, CHR 0x0B, CHR 0x0C, CHR 0x0D, CHR 0x20, CHR 0xA0])"

definition trim :: "string \<Rightarrow> string" where
  "trim s = rev (dropWhile is_space (rev (dropWhile is_space s)))"


section \<open>The runtime\<close>

text \<open>
  What the Deno runtime supplies is a parameter of the model: the environment variable, the
  outbound \<open>fetch\<close>, \<open>JSON.parse\<close>, \<open>JSON.stringify(v, null, 2)\<close> and the conversion of
  a number to a string. The text \<open>JSON.stringify(v)\<close> that becomes the body of a
  request or a response is kept symbolic, as \<open>JSON_stringify v\<close>: a property of \<open>v\<close>
  whose value is \<open>undefined\<close> is left out of that text.
\<close>

datatype body_text = NullBody | JSON_stringify jsval

record fetch_init =
  fi_method :: string
  fi_headers :: "(string \<times> string) list"
  fi_body :: body_text

text \<open>The \<open>Response\<close> of \<open>fetch\<close>: \<open>response.ok\<close>, \<open>response.status\<close> and the outcome of
  \<open>await response.json()\<close>.\<close>

record fetch_response =
  ok :: bool
  status :: nat
  json :: "js_error + jsval"

record runtime =
  env_OPENAI_API_KEY :: "string option"
  fetch :: "string \<Rightarrow> fetch_init \<Rightarrow> js_error + fetch_response"
  JSON_parse :: "string \<Rightarrow> js_error + jsval"
  JSON_stringify_indent2 :: "jsval \<Rightarrow> string"
  Number_toString :: "rat \<Rightarrow> string"

text \<open>\<open>const OPENAI_API_KEY = Deno.env.get('OPENAI_API_KEY') || ''\<close>\<close>

definition OPENAI_API_KEY :: "runtime \<Rightarrow> string" where
  "OPENAI_API_KEY rt = (case env_OPENAI_API_KEY rt of None \<Rightarrow> [] | Some k \<Rightarrow> k)"

section \<open>The vision client: \<open>analyzeFoodImage\<close>\<close>

definition prompt_text :: string where
  "prompt_text = ''Analyze this food image and return ONLY a valid JSON object with these exact fields: name (string), description (string), calories (number), protein (number in grams), fat (number in grams), carbs (number in grams), fiber (number in grams or null), sugar (number in grams or null), sodium (number in mg or null), servingSize (string or null), ingredients (array of strings or null). Return only raw JSON, no markdown.''"

definition vision_request :: "runtime \<Rightarrow> jsval \<Rightarrow> fetch_init" where
  "vision_request rt imageUrl =
     \<lparr> fi_method = ''POST'',
       fi_headers = [(''Content-Type'', ''application/json''),
                     (''Authorization'', ''Bearer '' @ OPENAI_API_KEY rt)],
       fi_body = JSON_stringify (JObj
         [(''model'', JStr ''gpt-4o''),
          (''messages'', JArr
             [JObj [(''role'', JStr ''user''),
                    (''content'', JArr
                       [JObj [(''type'', JStr ''text''), (''text'', JStr prompt_text)],
                        JObj [(''type'', JStr ''image_url''),
                              (''image_url'', JObj [(''url'', imageUrl)])]])]]),
          (''max_tokens'', JNum 800)]) \<rparr>"

text \<open>\<open>content.replace(...).trim()\<close>: \<open>replace\<close> exists on a string only.\<close>

definition cleanedContent :: "jsval \<Rightarrow> js_error + string" where
  "cleanedContent content =
     (case content of
        JStr s \<Rightarrow> Inr (trim (replace_fences s))
      | _ \<Rightarrow> Inl (JsError ''content.replace is not a function''))"

text \<open>\<open>response.status\<close> is a natural number; in the template literal it prints as its
  decimal digits.\<close>

definition analyzeFoodImage :: "runtime \<Rightarrow> jsval \<Rightarrow> js_error + jsval" where
  "analyzeFoodImage rt imageUrl =
     (case fetch rt ''https://api.openai.com/v1/chat/completions'' (vision_request rt imageUrl) of
        Inl e \<Rightarrow> Inl e
      | Inr response \<Rightarrow>
          if \<not> ok response
          then Inl (JsError (''OpenAI API error: '' @ show_nat (status response)))
          else (case json response of
                  Inl e \<Rightarrow> Inl e
                | Inr data \<Rightarrow>
                    (case get_prop data ''choices'' of
                       Inl e \<Rightarrow> Inl e
                     | Inr choices \<Rightarrow>
                         let content = opt_prop (opt_prop (opt_index0 choices) ''message'') ''content''
                         in if \<not> truthy content
                            then Inl (JsError ''No content in OpenAI response'')
                            else (case cleanedContent content of
                                    Inl e \<Rightarrow> Inl e
                                  | Inr cleaned \<Rightarrow> JSON_parse rt cleaned))))"

section \<open>The dispatcher: \<open>handleMCPRequest\<close>\<close>

definition tool_descriptor :: jsval where
  "tool_descriptor = JObj
     [(''name'', JStr ''analyze_food_image''),
      (''description'', JStr ''Analyzes a food image and returns detailed nutritional information including macros (calories, protein, fat, carbs), micronutrients, and ingredients''),
      (''inputSchema'', JObj
         [(''type'', JStr ''object''),
          (''properties'', JObj
             [(''imageUrl'', JObj
                [(''type'', JStr ''string''),
                 (''description'', JStr ''The URL or base64 data URL of the food image to analyze (supports data:image/jpeg;base64,... format)'')])]),
          (''required'', JArr [JStr ''imageUrl''])])]"

text \<open>\<open>const { jsonrpc, id, method, params } = request\<close> reads four properties of the
  request and throws a TypeError on \<open>null\<close> and \<open>undefined\<close>. The template literal of the
  default branch throws when the method has no conversion to a string.\<close>

definition handleMCPRequest :: "runtime \<Rightarrow> jsval \<Rightarrow> js_error + jsval" where
  "handleMCPRequest rt request =
     (if nullish request
      then Inl (JsError (''Cannot destructure property '' @ [CHR 0x27] @ ''jsonrpc'' @ [CHR 0x27]
                         @ '' of '' @ [CHR 0x27] @ ''request'' @ [CHR 0x27] @ '' as it is ''
                         @ (if request = JNull then ''null'' else ''undefined'') @ ''.''))
      else
      (let jsonrpc = js_prop request ''jsonrpc'';
           id = js_prop request ''id'';
           method = js_prop request ''method'';
           params = js_prop request ''params''
       in if jsonrpc \<noteq> JStr ''2.0''
          then Inr (JObj [(''jsonrpc'', JStr ''2.0''), (''id'', id),
                     (''error'', JObj [(''code'', JNum (- 32600)),
                                       (''message'', JStr ''Invalid Request: jsonrpc must be 2.0'')])])
          else if method = JStr ''initialize''
          then Inr (JObj [(''jsonrpc'', JStr ''2.0''), (''id'', id),
                     (''result'', JObj
                        [(''protocolVersion'', JStr ''2024-11-05''),
                         (''capabilities'', JObj [(''tools'', JObj [])]),
                         (''serverInfo'', JObj [(''name'', JStr ''food-analyzer-mcp''),
                                                (''version'', JStr ''1.0.0'')])])])
          else if method = JStr ''tools/list''
          then Inr (JObj [(''jsonrpc'', JStr ''2.0''), (''id'', id),
                     (''result'', JObj [(''tools'', JArr [tool_descriptor])])])
          else if method = JStr ''tools/call''
          then Inr (JObj [(''jsonrpc'', JStr ''2.0''), (''id'', id),
                     (''result'', JObj [(''_async'', JBool True),
                                        (''toolName'', opt_prop params ''name''),
                                        (''arguments'', opt_prop params ''arguments'')])])
          else (case js_to_string (Number_toString rt) method of
                  Inl e \<Rightarrow> Inl e
                | Inr method_text \<Rightarrow>
                    Inr (JObj [(''jsonrpc'', JStr ''2.0''), (''id'', id),
                          (''error'', JObj [(''code'', JNum (- 32601)),
                                            (''message'', JStr (''Method not found: ''
                                                                @ method_text))])]))))"

section \<open>The HTTP handler\<close>

text \<open>
  The handler reads two things of the inbound request: its method and the outcome of
  \<open>await req.json()\<close>, which is the parsed body or an exception. A response is the
  \<open>Response\<close> the handler constructs. The handler's result also records every invocation of
  \<open>analyzeFoodImage\<close>, with its argument and its outcome; console output is not modelled.
\<close>

record http_request =
  req_method :: string
  req_json :: "js_error + jsval"

record http_response =
  resp_body :: body_text
  resp_status :: nat
  resp_headers :: "(string \<times> string) list"

type_synonym vision_call = "jsval \<times> (js_error + jsval)"

record outcome =
  response :: http_response
  vision_calls :: "vision_call list"

text \<open>\<open>new Response(body, { status, headers })\<close>; the status is 200 when none is given.\<close>

definition new_Response :: "body_text \<Rightarrow> nat option \<Rightarrow> (string \<times> string) list \<Rightarrow> http_response" where
  "new_Response b st hs =
     \<lparr> resp_body = b, resp_status = (case st of None \<Rightarrow> 200 | Some n \<Rightarrow> n),
       resp_headers = hs \<rparr>"

definition json_headers :: "(string \<times> string) list" where
  "json_headers = [(''Content-Type'', ''application/json''),
                   (''Access-Control-Allow-Origin'', ''*'')]"

definition cors_headers :: "(string \<times> string) list" where
  "cors_headers = [(''Access-Control-Allow-Origin'', ''*''),
                   (''Access-Control-Allow-Methods'', ''POST, GET, OPTIONS''),
                   (''Access-Control-Allow-Headers'', ''Content-Type'')]"

text \<open>The \<open>try\<close>/\<open>catch\<close> around the call of the tool \<open>analyze_food_image\<close> (lines 182 to
  243): every exception of \<open>analyzeFoodImage\<close> is caught here.\<close>

definition tool_call :: "runtime \<Rightarrow> jsval \<Rightarrow> jsval \<Rightarrow> outcome" where
  "tool_call rt mcpRequest args =
     (let imageUrl = opt_prop args ''imageUrl''
      in if \<not> truthy imageUrl
         then \<lparr> response = new_Response (JSON_stringify (JObj
                   [(''jsonrpc'', JStr ''2.0''), (''id'', js_prop mcpRequest ''id''),
                    (''error'', JObj [(''code'', JNum (- 32602)),
                                      (''message'', JStr ''Invalid params: imageUrl is required'')])]))
                   None json_headers,
                 vision_calls = [] \<rparr>
         else (case analyzeFoodImage rt imageUrl of
                 Inr foodData \<Rightarrow>
                   \<lparr> response = new_Response (JSON_stringify (JObj
                        [(''jsonrpc'', JStr ''2.0''), (''id'', js_prop mcpRequest ''id''),
                         (''result'', JObj
                            [(''content'', JArr
                                [JObj [(''type'', JStr ''text''),
                                       (''text'', JStr (JSON_stringify_indent2 rt foodData))]]),
                             (''isError'', JBool False)])]))
                        None json_headers,
                      vision_calls = [(imageUrl, Inr foodData)] \<rparr>
               | Inl error \<Rightarrow>
                   \<lparr> response = new_Response (JSON_stringify (JObj
                        [(''jsonrpc'', JStr ''2.0''), (''id'', js_prop mcpRequest ''id''),
                         (''result'', JObj
                            [(''content'', JArr
                                [JObj [(''type'', JStr ''text''),
                                       (''text'', JStr (''Error analyzing food: '' @ message error))]]),
                             (''isError'', JBool True)])]))
                        (Some 200) json_headers,
                      vision_calls = [(imageUrl, Inl error)] \<rparr>))"

text \<open>The body of the outer \<open>try\<close> (lines 168 to 277): a response, or the exception that
  reaches the outer \<open>catch\<close>, and the invocations made on the way.\<close>

definition serve_try :: "runtime \<Rightarrow> http_request \<Rightarrow> (js_error + http_response) \<times> vision_call list" where
  "serve_try rt req =
     (case req_json req of
        Inl e \<Rightarrow> (Inl e, [])
      | Inr body \<Rightarrow>
          (case get_prop body ''jsonrpc'' of
             Inl e \<Rightarrow> (Inl e, [])
           | Inr jsonrpc \<Rightarrow>
               if jsonrpc = JStr ''2.0''
               then (let mcpRequest = body;
                         other = (case handleMCPRequest rt mcpRequest of
                                    Inl e \<Rightarrow> (Inl e, [])
                                  | Inr reply \<Rightarrow>
                                      (Inr (new_Response (JSON_stringify reply) None json_headers), []))
                     in if js_prop mcpRequest ''method'' = JStr ''tools/call''
                        then (let toolName = opt_prop (js_prop mcpRequest ''params'') ''name'';
                                  args = opt_prop (js_prop mcpRequest ''params'') ''arguments''
                              in if toolName = JStr ''analyze_food_image''
                                 then (let out = tool_call rt mcpRequest args
                                       in (Inr (response out), vision_calls out))
                                 else other)
                        else other)
               else (let image = js_prop body ''image''
                     in if truthy image
                        then (case analyzeFoodImage rt image of
                                Inl e \<Rightarrow> (Inl e, [(image, Inl e)])
                              | Inr foodData \<Rightarrow>
                                  (Inr (new_Response (JSON_stringify foodData) None json_headers),
                                   [(image, Inr foodData)]))
                        else (Inr (new_Response (JSON_stringify (JObj
                                      [(''error'', JStr ''Invalid request format'')]))
                                      (Some 400) json_headers), []))))"

text \<open>The function given to \<open>Deno.serve\<close>.\<close>

definition serve :: "runtime \<Rightarrow> http_request \<Rightarrow> outcome" where
  "serve rt req =
     (if req_method req = ''OPTIONS''
      then \<lparr> response = new_Response NullBody None cors_headers, vision_calls = [] \<rparr>
      else (case serve_try rt req of
              (Inr resp, calls) \<Rightarrow> \<lparr> response = resp, vision_calls = calls \<rparr>
            | (Inl error, calls) \<Rightarrow>
                \<lparr> response = new_Response (JSON_stringify (JObj
                     [(''error'', JStr ''Internal server error''),
                      (''message'', JStr (message error))]))
                     (Some 500) json_headers,
                   vision_calls = calls \<rparr>))"

section \<open>Sample runtimes and requests\<close>

text \<open>Concrete runtimes and requests, on which the theorems below are evaluated. The
  endpoint of \<open>test_runtime\<close> answers with a fenced JSON text, the one of
  \<open>offline_runtime\<close> cannot be reached, the one of \<open>rejecting_runtime\<close> answers 401 and
  the one of \<open>empty_reply_runtime\<close> answers with an empty object.\<close>

definition apple_reply :: string where
  \<open>apple_reply = ''```json\<newline>{"name":"Apple","calories":95}\<newline>```''\<close>

definition apple :: jsval where
  "apple = JObj [(''name'', JStr ''Apple''), (''calories'', JNum 95)]"

definition reply_with :: "jsval \<Rightarrow> fetch_response" where
  "reply_with data = \<lparr> ok = True, status = 200, json = Inr data \<rparr>"

definition test_runtime :: runtime where
  \<open>test_runtime =
     \<lparr> env_OPENAI_API_KEY = Some ''sk-test'',
       fetch = (\<lambda>url init. Inr (reply_with (JObj [(''choices'', JArr [JObj [(''message'',
                  JObj [(''role'', JStr ''assistant''), (''content'', JStr apple_reply)])]])]))),
       JSON_parse = (\<lambda>s. if s = ''{"name":"Apple","calories":95}'' then Inr apple
                          else Inl (JsError ''Unexpected token'')),
       JSON_stringify_indent2 = (\<lambda>v. if v = apple
                          then ''{\<newline>  "name": "Apple",\<newline>  "calories": 95\<newline>}'' else ''null''),
       Number_toString = (\<lambda>r. ''NaN'') \<rparr>\<close>

definition offline_runtime :: runtime where
  "offline_runtime = test_runtime \<lparr> fetch := (\<lambda>url init. Inl (JsError ''network down'')) \<rparr>"

definition rejecting_runtime :: runtime where
  "rejecting_runtime = test_runtime
     \<lparr> fetch := (\<lambda>url init. Inr \<lparr> ok = False, status = 401, json = Inr (JObj []) \<rparr>) \<rparr>"

definition empty_reply_runtime :: runtime where
  "empty_reply_runtime = test_runtime \<lparr> fetch := (\<lambda>url init. Inr (reply_with (JObj []))) \<rparr>"

text \<open>The endpoint of \<open>quoted_fence_runtime\<close> answers with the JSON text of an array that
  holds the string of three backticks; its \<open>JSON_parse\<close> is \<open>JSON.parse\<close> on that text and
  on the text of the array that holds the empty string.\<close>

definition quoted_fence_runtime :: runtime where
  \<open>quoted_fence_runtime = test_runtime
     \<lparr> fetch := (\<lambda>url init. Inr (reply_with (JObj [(''choices'', JArr [JObj [(''message'',
                  JObj [(''role'', JStr ''assistant''), (''content'', JStr ''["```"]'')])]])]))),
       JSON_parse := (\<lambda>s. if s = ''["```"]'' then Inr (JArr [JStr ''```''])
                           else if s = ''[""]'' then Inr (JArr [JStr []])
                           else Inl (JsError ''Unexpected token'')) \<rparr>\<close>

definition post :: "jsval \<Rightarrow> http_request" where
  "post b = \<lparr> req_method = ''POST'', req_json = Inr b \<rparr>"

definition rpc :: "jsval \<Rightarrow> string \<Rightarrow> (string \<times> jsval) list \<Rightarrow> jsval" where
  "rpc i m rest = JObj ([(''jsonrpc'', JStr ''2.0''), (''id'', i), (''method'', JStr m)] @ rest)"

definition pizza :: jsval where
  "pizza = JStr ''https://example.com/pizza.jpg''"

definition analyze_call :: "(string \<times> jsval) list \<Rightarrow> jsval" where
  "analyze_call arguments = rpc (JNum 7) ''tools/call''
     [(''params'', JObj [(''name'', JStr ''analyze_food_image''), (''arguments'', JObj arguments)])]"

lemmas access_defs = get_prop_def opt_prop_def opt_index0_def nullish_def

lemmas handler_defs = serve_def serve_try_def tool_call_def handleMCPRequest_def new_Response_def
  json_headers_def cors_headers_def access_defs

lemmas client_defs = analyzeFoodImage_def cleanedContent_def trim_def is_space_def
  replace_fences.simps fence_match_def drop_newline_def

lemmas sample_defs = test_runtime_def offline_runtime_def rejecting_runtime_def
  empty_reply_runtime_def quoted_fence_runtime_def reply_with_def post_def rpc_def pizza_def analyze_call_def
  apple_reply_def apple_def

section \<open>JSON-RPC requests\<close>

lemma get_prop_defined: "js_prop v k = JStr s \<Longrightarrow> get_prop v k = Inr (JStr s)"
  by (auto simp: get_prop_def nullish_def)

lemma js_prop_not_nullish: "js_prop v k = JStr s \<Longrightarrow> \<not> nullish v"
  by (auto simp: nullish_def)

text \<open>A body whose \<open>jsonrpc\<close> is \<open>"2.0"\<close> goes to the tool when it is a \<open>tools/call\<close> of
  \<open>analyze_food_image\<close>, and to \<open>handleMCPRequest\<close> otherwise; an exception of
  \<open>handleMCPRequest\<close> reaches the outer \<open>catch\<close>.\<close>

lemma serve_mcp:
  assumes "req_method req \<noteq> ''OPTIONS''" and "req_json req = Inr request"
    and "js_prop request ''jsonrpc'' = JStr ''2.0''"
  shows "serve rt req =
     (if js_prop request ''method'' = JStr ''tools/call''
         \<and> opt_prop (js_prop request ''params'') ''name'' = JStr ''analyze_food_image''
      then tool_call rt request (opt_prop (js_prop request ''params'') ''arguments'')
      else (case handleMCPRequest rt request of
              Inr reply \<Rightarrow>
                \<lparr> response = new_Response (JSON_stringify reply) None json_headers,
                  vision_calls = [] \<rparr>
            | Inl error \<Rightarrow>
                \<lparr> response = new_Response (JSON_stringify (JObj
                     [(''error'', JStr ''Internal server error''),
                      (''message'', JStr (message error))]))
                     (Some 500) json_headers,
                  vision_calls = [] \<rparr>))"
  using assms
  by (simp add: serve_def serve_try_def get_prop_defined Let_def split: sum.split)

text \<open>
  Claim C10. For every request whose body has \<open>jsonrpc\<close> \<open>"2.0"\<close> and \<open>method\<close>
  \<open>initialize\<close>, whatever its \<open>params\<close>, the server answers with status 200 and a result
  whose \<open>protocolVersion\<close> is \<open>"2024-11-05"\<close> and whose \<open>capabilities.tools\<close> is the empty
  object; the vision client is not invoked. The request is any request that is not an
  OPTIONS preflight.
\<close>

theorem initialize_result:
  assumes "req_method req \<noteq> ''OPTIONS''" and "req_json req = Inr request"
    and "js_prop request ''jsonrpc'' = JStr ''2.0''"
    and "js_prop request ''method'' = JStr ''initialize''"
  shows "serve rt req =
     \<lparr> response =
         \<lparr> resp_body = JSON_stringify (JObj
             [(''jsonrpc'', JStr ''2.0''), (''id'', js_prop request ''id''),
              (''result'', JObj
                 [(''protocolVersion'', JStr ''2024-11-05''),
                  (''capabilities'', JObj [(''tools'', JObj [])]),
                  (''serverInfo'', JObj [(''name'', JStr ''food-analyzer-mcp''),
                                         (''version'', JStr ''1.0.0'')])])]),
           resp_status = 200, resp_headers = json_headers \<rparr>,
        vision_calls = [] \<rparr>"
  using assms js_prop_not_nullish [of request "''jsonrpc''" "''2.0''"]
  by (simp add: serve_mcp handleMCPRequest_def new_Response_def Let_def)

theorem initialize_result_witness:
  "req_method (post (rpc (JNum 1) ''initialize'' [(''params'', JObj [(''clientInfo'', JStr ''x'')])])) \<noteq> ''OPTIONS''
   \<and> req_json (post (rpc (JNum 1) ''initialize'' [(''params'', JObj [(''clientInfo'', JStr ''x'')])]))
       = Inr (rpc (JNum 1) ''initialize'' [(''params'', JObj [(''clientInfo'', JStr ''x'')])])
   \<and> js_prop (rpc (JNum 1) ''initialize'' [(''params'', JObj [(''clientInfo'', JStr ''x'')])]) ''jsonrpc'' = JStr ''2.0''
   \<and> js_prop (rpc (JNum 1) ''initialize'' [(''params'', JObj [(''clientInfo'', JStr ''x'')])]) ''method'' = JStr ''initialize''
   \<and> serve test_runtime (post (rpc (JNum 1) ''initialize'' [(''params'', JObj [(''clientInfo'', JStr ''x'')])])) =
     \<lparr> response =
         \<lparr> resp_body = JSON_stringify (JObj
             [(''jsonrpc'', JStr ''2.0''), (''id'', JNum 1),
              (''result'', JObj
                 [(''protocolVersion'', JStr ''2024-11-05''),
                  (''capabilities'', JObj [(''tools'', JObj [])]),
                  (''serverInfo'', JObj [(''name'', JStr ''food-analyzer-mcp''),
                                         (''version'', JStr ''1.0.0'')])])]),
           resp_status = 200, resp_headers = json_headers \<rparr>,
        vision_calls = [] \<rparr>"
  using initialize_result [where req = "post (rpc (JNum 1) ''initialize'' [(''params'', JObj [(''clientInfo'', JStr ''x'')])])"
      and request = "rpc (JNum 1) ''initialize'' [(''params'', JObj [(''clientInfo'', JStr ''x'')])]"
      and rt = test_runtime]
  by (simp add: post_def rpc_def)

text \<open>The default branch of \<open>handleMCPRequest\<close>, for a method of any type that has a
  conversion to a string.\<close>

lemma unknown_method_converted:
  assumes "req_method req \<noteq> ''OPTIONS''" and "req_json req = Inr request"
    and "js_prop request ''jsonrpc'' = JStr ''2.0''"
    and "js_prop request ''method'' \<noteq> JStr ''initialize''"
    and "js_prop request ''method'' \<noteq> JStr ''tools/list''"
    and "js_prop request ''method'' \<noteq> JStr ''tools/call''"
    and "js_to_string (Number_toString rt) (js_prop request ''method'') = Inr method_text"
  shows "serve rt req =
     \<lparr> response =
         \<lparr> resp_body = JSON_stringify (JObj
             [(''jsonrpc'', JStr ''2.0''), (''id'', js_prop request ''id''),
              (''error'', JObj
                 [(''code'', JNum (- 32601)),
                  (''message'', JStr (''Method not found: '' @ method_text))])]),
           resp_status = 200, resp_headers = json_headers \<rparr>,
        vision_calls = [] \<rparr>"
  using assms js_prop_not_nullish [of request "''jsonrpc''" "''2.0''"]
  by (simp add: serve_mcp handleMCPRequest_def new_Response_def Let_def)

text \<open>
  Claim C9 as stated, for every request whose \<open>method\<close> is none of \<open>initialize\<close>,
  \<open>tools/list\<close> and \<open>tools/call\<close>, fails: the body
  \<open>{"jsonrpc": "2.0", "id": 2, "method": {"toString": 1}}\<close> has such a method, the
  template literal of the default branch throws a TypeError on it, the outer \<open>catch\<close>
  takes it, and the server answers with status 500 and no JSON-RPC envelope.
\<close>

theorem object_method_answered_500:
  "js_prop (JObj [(''jsonrpc'', JStr ''2.0''), (''id'', JNum 2),
                  (''method'', JObj [(''toString'', JNum 1)])]) ''jsonrpc'' = JStr ''2.0''
   \<and> js_prop (JObj [(''jsonrpc'', JStr ''2.0''), (''id'', JNum 2),
                  (''method'', JObj [(''toString'', JNum 1)])]) ''method''
       = JObj [(''toString'', JNum 1)]
   \<and> serve test_runtime (post (JObj [(''jsonrpc'', JStr ''2.0''), (''id'', JNum 2),
                                      (''method'', JObj [(''toString'', JNum 1)])])) =
     \<lparr> response =
         \<lparr> resp_body = JSON_stringify (JObj
             [(''error'', JStr ''Internal server error''),
              (''message'', JStr ''Cannot convert object to primitive value'')]),
           resp_status = 500, resp_headers = json_headers \<rparr>,
        vision_calls = [] \<rparr>"
  by (simp add: handler_defs post_def)

text \<open>
  Claim C9, amended. For every request whose body has \<open>jsonrpc\<close> \<open>"2.0"\<close> and whose
  \<open>method\<close> is a string other than \<open>initialize\<close>, \<open>tools/list\<close> and \<open>tools/call\<close>, the
  server answers with status 200 and the JSON-RPC error envelope of code -32601 whose
  message is \<open>"Method not found: "\<close> followed by that method string; the vision client is
  not invoked.
\<close>

theorem unknown_method_not_found:
  assumes "req_method req \<noteq> ''OPTIONS''" and "req_json req = Inr request"
    and "js_prop request ''jsonrpc'' = JStr ''2.0''"
    and "js_prop request ''method'' = JStr m"
    and "m \<noteq> ''initialize''" and "m \<noteq> ''tools/list''" and "m \<noteq> ''tools/call''"
  shows "serve rt req =
     \<lparr> response =
         \<lparr> resp_body = JSON_stringify (JObj
             [(''jsonrpc'', JStr ''2.0''), (''id'', js_prop request ''id''),
              (''error'', JObj
                 [(''code'', JNum (- 32601)),
                  (''message'', JStr (''Method not found: '' @ m))])]),
           resp_status = 200, resp_headers = json_headers \<rparr>,
        vision_calls = [] \<rparr>"
  using assms js_prop_not_nullish [of request "''jsonrpc''" "''2.0''"]
  by (simp add: serve_mcp handleMCPRequest_def new_Response_def Let_def)

theorem unknown_method_not_found_witness:
  "req_method (post (rpc (JNum 2) ''foo/bar'' [])) \<noteq> ''OPTIONS''
   \<and> req_json (post (rpc (JNum 2) ''foo/bar'' [])) = Inr (rpc (JNum 2) ''foo/bar'' [])
   \<and> js_prop (rpc (JNum 2) ''foo/bar'' []) ''jsonrpc'' = JStr ''2.0''
   \<and> js_prop (rpc (JNum 2) ''foo/bar'' []) ''method'' = JStr ''foo/bar''
   \<and> ''foo/bar'' \<noteq> ''initialize'' \<and> ''foo/bar'' \<noteq> ''tools/list'' \<and> ''foo/bar'' \<noteq> ''tools/call''
   \<and> serve test_runtime (post (rpc (JNum 2) ''foo/bar'' [])) =
     \<lparr> response =
         \<lparr> resp_body = JSON_stringify (JObj
             [(''jsonrpc'', JStr ''2.0''), (''id'', JNum 2),
              (''error'', JObj
                 [(''code'', JNum (- 32601)),
                  (''message'', JStr ''Method not found: foo/bar'')])]),
           resp_status = 200, resp_headers = json_headers \<rparr>,
        vision_calls = [] \<rparr>"
  using unknown_method_not_found [where req = "post (rpc (JNum 2) ''foo/bar'' [])"
      and request = "rpc (JNum 2) ''foo/bar'' []" and rt = test_runtime and m = "''foo/bar''"]
  by (simp add: post_def rpc_def)

text \<open>
  Claim C5. For every request whose body has \<open>jsonrpc\<close> \<open>"2.0"\<close> and \<open>method\<close>
  \<open>tools/call\<close> and whose \<open>params.name\<close> is anything but \<open>"analyze_food_image"\<close> (absent
  included), the server answers with status 200 and the success envelope whose result is
  \<open>{_async: true, toolName: params.name, arguments: params.arguments}\<close>: the envelope has
  no \<open>error\<close> and the result has no \<open>isError\<close>. The vision client is not invoked.
\<close>

theorem other_tool_async_marker:
  assumes "req_method req \<noteq> ''OPTIONS''" and "req_json req = Inr request"
    and "js_prop request ''jsonrpc'' = JStr ''2.0''"
    and "js_prop request ''method'' = JStr ''tools/call''"
    and "opt_prop (js_prop request ''params'') ''name'' \<noteq> JStr ''analyze_food_image''"
  shows "serve rt req =
     \<lparr> response =
         \<lparr> resp_body = JSON_stringify (JObj
             [(''jsonrpc'', JStr ''2.0''), (''id'', js_prop request ''id''),
              (''result'', JObj
                 [(''_async'', JBool True),
                  (''toolName'', opt_prop (js_prop request ''params'') ''name''),
                  (''arguments'', opt_prop (js_prop request ''params'') ''arguments'')])]),
           resp_status = 200, resp_headers = json_headers \<rparr>,
        vision_calls = [] \<rparr>"
  using assms js_prop_not_nullish [of request "''jsonrpc''" "''2.0''"]
  by (simp add: serve_mcp handleMCPRequest_def new_Response_def Let_def)

theorem other_tool_async_marker_witness:
  "req_method (post (rpc (JNum 3) ''tools/call''
       [(''params'', JObj [(''name'', JStr ''get_weather''), (''arguments'', JObj [(''city'', JStr ''Oslo'')])])]))
     \<noteq> ''OPTIONS''
   \<and> req_json (post (rpc (JNum 3) ''tools/call''
       [(''params'', JObj [(''name'', JStr ''get_weather''), (''arguments'', JObj [(''city'', JStr ''Oslo'')])])]))
     = Inr (rpc (JNum 3) ''tools/call''
       [(''params'', JObj [(''name'', JStr ''get_weather''), (''arguments'', JObj [(''city'', JStr ''Oslo'')])])])
   \<and> js_prop (rpc (JNum 3) ''tools/call''
       [(''params'', JObj [(''name'', JStr ''get_weather''), (''arguments'', JObj [(''city'', JStr ''Oslo'')])])])
       ''jsonrpc'' = JStr ''2.0''
   \<and> js_prop (rpc (JNum 3) ''tools/call''
       [(''params'', JObj [(''name'', JStr ''get_weather''), (''arguments'', JObj [(''city'', JStr ''Oslo'')])])])
       ''method'' = JStr ''tools/call''
   \<and> opt_prop (js_prop (rpc (JNum 3) ''tools/call''
       [(''params'', JObj [(''name'', JStr ''get_weather''), (''arguments'', JObj [(''city'', JStr ''Oslo'')])])])
       ''params'') ''name'' \<noteq> JStr ''analyze_food_image''
   \<and> serve test_runtime (post (rpc (JNum 3) ''tools/call''
       [(''params'', JObj [(''name'', JStr ''get_weather''), (''arguments'', JObj [(''city'', JStr ''Oslo'')])])])) =
     \<lparr> response =
         \<lparr> resp_body = JSON_stringify (JObj
             [(''jsonrpc'', JStr ''2.0''), (''id'', JNum 3),
              (''result'', JObj
                 [(''_async'', JBool True),
                  (''toolName'', JStr ''get_weather''),
                  (''arguments'', JObj [(''city'', JStr ''Oslo'')])])]),
           resp_status = 200, resp_headers = json_headers \<rparr>,
        vision_calls = [] \<rparr>"
  using other_tool_async_marker [where req = "post (rpc (JNum 3) ''tools/call''
       [(''params'', JObj [(''name'', JStr ''get_weather''), (''arguments'', JObj [(''city'', JStr ''Oslo'')])])])"
      and request = "rpc (JNum 3) ''tools/call''
       [(''params'', JObj [(''name'', JStr ''get_weather''), (''arguments'', JObj [(''city'', JStr ''Oslo'')])])]"
      and rt = test_runtime]
  by (simp add: post_def rpc_def opt_prop_def nullish_def)

section \<open>The tool \<open>analyze_food_image\<close>\<close>

text \<open>
  Claim C4. For every \<open>tools/call\<close> request with \<open>jsonrpc\<close> \<open>"2.0"\<close> that names the tool
  \<open>analyze_food_image\<close> and whose \<open>params.arguments.imageUrl\<close> is missing (the handler's
  test \<open>!imageUrl\<close>, which an absent \<open>imageUrl\<close>, absent \<open>arguments\<close> and every other falsy
  value pass), the server answers with status 200 and the JSON-RPC error envelope of code
  -32602 and message \<open>"Invalid params: imageUrl is required"\<close>, and the vision client is not
  invoked.
\<close>

theorem missing_imageUrl_invalid_params:
  assumes "req_method req \<noteq> ''OPTIONS''" and "req_json req = Inr request"
    and "js_prop request ''jsonrpc'' = JStr ''2.0''"
    and "js_prop request ''method'' = JStr ''tools/call''"
    and "opt_prop (js_prop request ''params'') ''name'' = JStr ''analyze_food_image''"
    and "\<not> truthy (opt_prop (opt_prop (js_prop request ''params'') ''arguments'') ''imageUrl'')"
  shows "serve rt req =
     \<lparr> response =
         \<lparr> resp_body = JSON_stringify (JObj
             [(''jsonrpc'', JStr ''2.0''), (''id'', js_prop request ''id''),
              (''error'', JObj
                 [(''code'', JNum (- 32602)),
                  (''message'', JStr ''Invalid params: imageUrl is required'')])]),
           resp_status = 200, resp_headers = json_headers \<rparr>,
        vision_calls = [] \<rparr>"
  using assms by (simp add: serve_mcp tool_call_def new_Response_def Let_def)

theorem missing_imageUrl_invalid_params_witness:
  "req_method (post (analyze_call [(''url'', pizza)])) \<noteq> ''OPTIONS''
   \<and> req_json (post (analyze_call [(''url'', pizza)])) = Inr (analyze_call [(''url'', pizza)])
   \<and> js_prop (analyze_call [(''url'', pizza)]) ''jsonrpc'' = JStr ''2.0''
   \<and> js_prop (analyze_call [(''url'', pizza)]) ''method'' = JStr ''tools/call''
   \<and> opt_prop (js_prop (analyze_call [(''url'', pizza)]) ''params'') ''name'' = JStr ''analyze_food_image''
   \<and> opt_prop (opt_prop (js_prop (analyze_call [(''url'', pizza)]) ''params'') ''arguments'') ''imageUrl''
       = JUndefined
   \<and> serve test_runtime (post (analyze_call [(''url'', pizza)])) =
     \<lparr> response =
         \<lparr> resp_body = JSON_stringify (JObj
             [(''jsonrpc'', JStr ''2.0''), (''id'', JNum 7),
              (''error'', JObj
                 [(''code'', JNum (- 32602)),
                  (''message'', JStr ''Invalid params: imageUrl is required'')])]),
           resp_status = 200, resp_headers = json_headers \<rparr>,
        vision_calls = [] \<rparr>"
  using missing_imageUrl_invalid_params [where req = "post (analyze_call [(''url'', pizza)])"
      and request = "analyze_call [(''url'', pizza)]" and rt = test_runtime]
  by (simp add: post_def rpc_def analyze_call_def opt_prop_def nullish_def)

text \<open>
  Claim C2 as stated, for every present \<open>imageUrl\<close>, fails: the handler tests \<open>!imageUrl\<close>,
  and a \<open>tools/call\<close> of \<open>analyze_food_image\<close> whose \<open>imageUrl\<close> is the empty string, on
  which the vision client throws, is answered with the JSON-RPC error envelope of code
  -32602, not with a result envelope; the client is not invoked.
\<close>

theorem empty_imageUrl_failure_not_reported:
  "opt_prop (opt_prop (js_prop (analyze_call [(''imageUrl'', JStr [])]) ''params'') ''arguments'') ''imageUrl''
     = JStr []
   \<and> analyzeFoodImage offline_runtime (JStr []) = Inl (JsError ''network down'')
   \<and> serve offline_runtime (post (analyze_call [(''imageUrl'', JStr [])])) =
     \<lparr> response =
         \<lparr> resp_body = JSON_stringify (JObj
             [(''jsonrpc'', JStr ''2.0''), (''id'', JNum 7),
              (''error'', JObj
                 [(''code'', JNum (- 32602)),
                  (''message'', JStr ''Invalid params: imageUrl is required'')])]),
           resp_status = 200, resp_headers = json_headers \<rparr>,
        vision_calls = [] \<rparr>"
  by (simp add: handler_defs client_defs sample_defs)

text \<open>
  Claim C2, amended. For every \<open>tools/call\<close> request with \<open>jsonrpc\<close> \<open>"2.0"\<close> that names
  the tool \<open>analyze_food_image\<close> with a truthy \<open>imageUrl\<close> (present and not the empty
  string, \<open>0\<close>, \<open>false\<close> or \<open>null\<close>), if the vision client throws on that \<open>imageUrl\<close>, for
  any reason, the server answers with status 200 and a JSON-RPC result envelope, not an
  error envelope, whose result has \<open>isError: true\<close> and whose \<open>content[0].text\<close> is
  \<open>"Error analyzing food: "\<close> followed by the message of the exception; the client is
  invoked once, with that \<open>imageUrl\<close>.
\<close>

theorem tool_failure_is_result:
  assumes "req_method req \<noteq> ''OPTIONS''" and "req_json req = Inr request"
    and "js_prop request ''jsonrpc'' = JStr ''2.0''"
    and "js_prop request ''method'' = JStr ''tools/call''"
    and "opt_prop (js_prop request ''params'') ''name'' = JStr ''analyze_food_image''"
    and "opt_prop (opt_prop (js_prop request ''params'') ''arguments'') ''imageUrl'' = imageUrl"
    and "truthy imageUrl"
    and "analyzeFoodImage rt imageUrl = Inl e"
  shows "serve rt req =
     \<lparr> response =
         \<lparr> resp_body = JSON_stringify (JObj
             [(''jsonrpc'', JStr ''2.0''), (''id'', js_prop request ''id''),
              (''result'', JObj
                 [(''content'', JArr
                     [JObj [(''type'', JStr ''text''),
                            (''text'', JStr (''Error analyzing food: '' @ message e))]]),
                  (''isError'', JBool True)])]),
           resp_status = 200, resp_headers = json_headers \<rparr>,
        vision_calls = [(imageUrl, Inl e)] \<rparr>"
  using assms by (simp add: serve_mcp tool_call_def new_Response_def Let_def)

theorem tool_failure_is_result_witness:
  "req_method (post (analyze_call [(''imageUrl'', pizza)])) \<noteq> ''OPTIONS''
   \<and> req_json (post (analyze_call [(''imageUrl'', pizza)])) = Inr (analyze_call [(''imageUrl'', pizza)])
   \<and> js_prop (analyze_call [(''imageUrl'', pizza)]) ''jsonrpc'' = JStr ''2.0''
   \<and> js_prop (analyze_call [(''imageUrl'', pizza)]) ''method'' = JStr ''tools/call''
   \<and> opt_prop (js_prop (analyze_call [(''imageUrl'', pizza)]) ''params'') ''name''
       = JStr ''analyze_food_image''
   \<and> opt_prop (opt_prop (js_prop (analyze_call [(''imageUrl'', pizza)]) ''params'') ''arguments'') ''imageUrl''
       = pizza
   \<and> truthy pizza
   \<and> analyzeFoodImage offline_runtime pizza = Inl (JsError ''network down'')
   \<and> serve offline_runtime (post (analyze_call [(''imageUrl'', pizza)])) =
     \<lparr> response =
         \<lparr> resp_body = JSON_stringify (JObj
             [(''jsonrpc'', JStr ''2.0''), (''id'', JNum 7),
              (''result'', JObj
                 [(''content'', JArr
                     [JObj [(''type'', JStr ''text''),
                            (''text'', JStr ''Error analyzing food: network down'')]]),
                  (''isError'', JBool True)])]),
           resp_status = 200, resp_headers = json_headers \<rparr>,
        vision_calls = [(pizza, Inl (JsError ''network down''))] \<rparr>"
  using tool_failure_is_result [where req = "post (analyze_call [(''imageUrl'', pizza)])"
      and request = "analyze_call [(''imageUrl'', pizza)]" and rt = offline_runtime
      and imageUrl = pizza and e = "JsError ''network down''"]
  by (simp add: handler_defs client_defs sample_defs)

text \<open>
  Claim C3 as stated, for every present \<open>imageUrl\<close>, fails: a \<open>tools/call\<close> of
  \<open>analyze_food_image\<close> whose \<open>imageUrl\<close> is the empty string, on which the vision client
  returns an object, is answered with the JSON-RPC error envelope of code -32602; the
  client is not invoked and its object is not in the response.
\<close>

theorem empty_imageUrl_success_not_reported:
  "opt_prop (opt_prop (js_prop (analyze_call [(''imageUrl'', JStr [])]) ''params'') ''arguments'') ''imageUrl''
     = JStr []
   \<and> analyzeFoodImage test_runtime (JStr []) = Inr apple
   \<and> serve test_runtime (post (analyze_call [(''imageUrl'', JStr [])])) =
     \<lparr> response =
         \<lparr> resp_body = JSON_stringify (JObj
             [(''jsonrpc'', JStr ''2.0''), (''id'', JNum 7),
              (''error'', JObj
                 [(''code'', JNum (- 32602)),
                  (''message'', JStr ''Invalid params: imageUrl is required'')])]),
           resp_status = 200, resp_headers = json_headers \<rparr>,
        vision_calls = [] \<rparr>"
  by (simp add: handler_defs client_defs sample_defs)

text \<open>
  Claim C3, amended. For every \<open>tools/call\<close> request with \<open>jsonrpc\<close> \<open>"2.0"\<close> that names
  the tool \<open>analyze_food_image\<close> with a truthy \<open>imageUrl\<close> (present and not the empty
  string, \<open>0\<close>, \<open>false\<close> or \<open>null\<close>), if the vision client returns an object \<open>foodData\<close> on
  that \<open>imageUrl\<close>, the server answers with status 200 and a JSON-RPC result envelope whose
  result has \<open>isError: false\<close> and whose \<open>content[0].text\<close> is
  \<open>JSON.stringify(foodData, null, 2)\<close>, the pretty-printed serialisation of exactly that
  object; the client is invoked once, with that \<open>imageUrl\<close>.
\<close>

theorem tool_success_is_pretty_json:
  assumes "req_method req \<noteq> ''OPTIONS''" and "req_json req = Inr request"
    and "js_prop request ''jsonrpc'' = JStr ''2.0''"
    and "js_prop request ''method'' = JStr ''tools/call''"
    and "opt_prop (js_prop request ''params'') ''name'' = JStr ''analyze_food_image''"
    and "opt_prop (opt_prop (js_prop request ''params'') ''arguments'') ''imageUrl'' = imageUrl"
    and "truthy imageUrl"
    and "analyzeFoodImage rt imageUrl = Inr foodData"
  shows "serve rt req =
     \<lparr> response =
         \<lparr> resp_body = JSON_stringify (JObj
             [(''jsonrpc'', JStr ''2.0''), (''id'', js_prop request ''id''),
              (''result'', JObj
                 [(''content'', JArr
                     [JObj [(''type'', JStr ''text''),
                            (''text'', JStr (JSON_stringify_indent2 rt foodData))]]),
                  (''isError'', JBool False)])]),
           resp_status = 200, resp_headers = json_headers \<rparr>,
        vision_calls = [(imageUrl, Inr foodData)] \<rparr>"
  using assms by (simp add: serve_mcp tool_call_def new_Response_def Let_def)

theorem tool_success_is_pretty_json_witness:
  \<open>req_method (post (analyze_call [(''imageUrl'', pizza)])) \<noteq> ''OPTIONS''
   \<and> req_json (post (analyze_call [(''imageUrl'', pizza)])) = Inr (analyze_call [(''imageUrl'', pizza)])
   \<and> js_prop (analyze_call [(''imageUrl'', pizza)]) ''jsonrpc'' = JStr ''2.0''
   \<and> js_prop (analyze_call [(''imageUrl'', pizza)]) ''method'' = JStr ''tools/call''
   \<and> opt_prop (js_prop (analyze_call [(''imageUrl'', pizza)]) ''params'') ''name''
       = JStr ''analyze_food_image''
   \<and> opt_prop (opt_prop (js_prop (analyze_call [(''imageUrl'', pizza)]) ''params'') ''arguments'') ''imageUrl''
       = pizza
   \<and> truthy pizza
   \<and> analyzeFoodImage test_runtime pizza = Inr apple
   \<and> serve test_runtime (post (analyze_call [(''imageUrl'', pizza)])) =
     \<lparr> response =
         \<lparr> resp_body = JSON_stringify (JObj
             [(''jsonrpc'', JStr ''2.0''), (''id'', JNum 7),
              (''result'', JObj
                 [(''content'', JArr
                     [JObj [(''type'', JStr ''text''),
                            (''text'', JStr ''{\<newline>  "name": "Apple",\<newline>  "calories": 95\<newline>}'')]]),
                  (''isError'', JBool False)])]),
           resp_status = 200, resp_headers = json_headers \<rparr>,
        vision_calls = [(pizza, Inr apple)] \<rparr>\<close>
  using tool_success_is_pretty_json [where req = "post (analyze_call [(''imageUrl'', pizza)])"
      and request = "analyze_call [(''imageUrl'', pizza)]" and rt = test_runtime
      and imageUrl = pizza and foodData = apple]
  by (simp add: handler_defs client_defs sample_defs)

section \<open>Bodies that are not JSON-RPC 2.0\<close>

text \<open>\<open>handleMCPRequest\<close> validates the version: given a request whose \<open>jsonrpc\<close> is not
  \<open>"2.0"\<close> it returns the error envelope of code -32600.\<close>

lemma handleMCPRequest_version_check:
  "\<not> nullish request \<Longrightarrow> js_prop request ''jsonrpc'' \<noteq> JStr ''2.0'' \<Longrightarrow>
   handleMCPRequest rt request = Inr (JObj
     [(''jsonrpc'', JStr ''2.0''), (''id'', js_prop request ''id''),
      (''error'', JObj [(''code'', JNum (- 32600)),
                        (''message'', JStr ''Invalid Request: jsonrpc must be 2.0'')])])"
  by (simp add: handleMCPRequest_def Let_def)

text \<open>
  Claim C1. For every POST whose body has the fields \<open>jsonrpc\<close>, \<open>id\<close> and \<open>method\<close> but
  whose \<open>jsonrpc\<close> is not \<open>"2.0"\<close>, the response body is the JSON-RPC error envelope of code
  -32600 and message \<open>"Invalid Request: jsonrpc must be 2.0"\<close>. The handler does not do
  this: it gives \<open>handleMCPRequest\<close> only the bodies whose \<open>jsonrpc\<close> is \<open>"2.0"\<close>, so the
  version check above is never reached. The body
  \<open>{"jsonrpc": "1.0", "id": 1, "method": "initialize"}\<close> is answered, under every runtime,
  with status 400 and \<open>{"error": "Invalid request format"}\<close>.
\<close>

theorem wrong_version_answered_400:
  "serve rt (post (JObj [(''jsonrpc'', JStr ''1.0''), (''id'', JNum 1), (''method'', JStr ''initialize'')])) =
     \<lparr> response =
         \<lparr> resp_body = JSON_stringify (JObj [(''error'', JStr ''Invalid request format'')]),
           resp_status = 400, resp_headers = json_headers \<rparr>,
        vision_calls = [] \<rparr>"
  by (simp add: handler_defs post_def)

text \<open>Every body that is not \<open>null\<close>, whose \<open>jsonrpc\<close> is not \<open>"2.0"\<close> and whose \<open>image\<close> is
  falsy is answered in this way.\<close>

lemma legacy_without_image_400:
  assumes "req_method req \<noteq> ''OPTIONS''" and "req_json req = Inr b" and "\<not> nullish b"
    and "js_prop b ''jsonrpc'' \<noteq> JStr ''2.0''" and "\<not> truthy (js_prop b ''image'')"
  shows "serve rt req =
     \<lparr> response =
         \<lparr> resp_body = JSON_stringify (JObj [(''error'', JStr ''Invalid request format'')]),
           resp_status = 400, resp_headers = json_headers \<rparr>,
        vision_calls = [] \<rparr>"
  using assms by (simp add: serve_def serve_try_def get_prop_def new_Response_def Let_def)

text \<open>
  Claim C8 as stated, for every body that has an \<open>image\<close> field, fails: the handler tests
  \<open>if (image)\<close>, and a body whose \<open>image\<close> is the empty string is answered with status 400
  without any invocation of the vision client, although the client would have returned.
\<close>

theorem empty_image_not_analyzed:
  "analyzeFoodImage test_runtime (JStr []) = Inr apple
   \<and> vision_calls (serve test_runtime (post (JObj [(''image'', JStr [])]))) = []
   \<and> resp_status (response (serve test_runtime (post (JObj [(''image'', JStr [])])))) = 400"
  by (simp add: handler_defs client_defs sample_defs)

lemma truthy_prop_not_nullish: "truthy (js_prop b k) \<Longrightarrow> \<not> nullish b"
  by (auto simp: nullish_def)

text \<open>
  Claim C8, amended. For every POST whose body does not have \<open>jsonrpc\<close> equal to \<open>"2.0"\<close>
  and whose \<open>image\<close> field is truthy (present and not the empty string, \<open>0\<close>, \<open>false\<close> or
  \<open>null\<close>), the server invokes the vision client once, with that \<open>image\<close> value, and when
  the client returns, the server answers with status 200 and the returned value serialised
  at the top level, without a JSON-RPC envelope.
\<close>

theorem legacy_image_analyzed:
  assumes "req_method req \<noteq> ''OPTIONS''" and "req_json req = Inr b"
    and "js_prop b ''jsonrpc'' \<noteq> JStr ''2.0''"
    and "truthy (js_prop b ''image'')"
  shows "vision_calls (serve rt req) = [(js_prop b ''image'', analyzeFoodImage rt (js_prop b ''image''))]
     \<and> (analyzeFoodImage rt (js_prop b ''image'') = Inr foodData \<longrightarrow>
          response (serve rt req) =
            \<lparr> resp_body = JSON_stringify foodData, resp_status = 200, resp_headers = json_headers \<rparr>)"
  using assms truthy_prop_not_nullish [of b "''image''"]
  by (auto simp add: serve_def serve_try_def get_prop_def new_Response_def Let_def split: sum.splits)

theorem legacy_image_analyzed_witness:
  "req_method (post (JObj [(''image'', JStr ''data:image/jpeg;base64,AAAA'')])) \<noteq> ''OPTIONS''
   \<and> req_json (post (JObj [(''image'', JStr ''data:image/jpeg;base64,AAAA'')]))
       = Inr (JObj [(''image'', JStr ''data:image/jpeg;base64,AAAA'')])
   \<and> js_prop (JObj [(''image'', JStr ''data:image/jpeg;base64,AAAA'')]) ''jsonrpc'' \<noteq> JStr ''2.0''
   \<and> truthy (js_prop (JObj [(''image'', JStr ''data:image/jpeg;base64,AAAA'')]) ''image'')
   \<and> analyzeFoodImage test_runtime (JStr ''data:image/jpeg;base64,AAAA'') = Inr apple
   \<and> vision_calls (serve test_runtime (post (JObj [(''image'', JStr ''data:image/jpeg;base64,AAAA'')])))
       = [(JStr ''data:image/jpeg;base64,AAAA'', Inr apple)]
   \<and> response (serve test_runtime (post (JObj [(''image'', JStr ''data:image/jpeg;base64,AAAA'')]))) =
        \<lparr> resp_body = JSON_stringify apple, resp_status = 200, resp_headers = json_headers \<rparr>"
  using legacy_image_analyzed [where req = "post (JObj [(''image'', JStr ''data:image/jpeg;base64,AAAA'')])"
      and b = "JObj [(''image'', JStr ''data:image/jpeg;base64,AAAA'')]" and rt = test_runtime
      and foodData = apple]
  by (simp add: handler_defs client_defs sample_defs)

section \<open>Response headers\<close>

lemma tool_call_headers: "resp_headers (response (tool_call rt request args)) = json_headers"
  by (simp add: tool_call_def new_Response_def Let_def split: sum.split)

lemma serve_try_headers:
  "serve_try rt req = (Inr resp, calls) \<Longrightarrow> resp_headers resp = json_headers"
  by (auto simp add: serve_try_def new_Response_def Let_def tool_call_headers
      split: sum.splits if_splits)

lemma serve_headers:
  "req_method req \<noteq> ''OPTIONS'' \<Longrightarrow> resp_headers (response (serve rt req)) = json_headers"
  by (auto simp add: serve_def new_Response_def serve_try_headers split: prod.splits sum.splits)

lemma options_headers:
  "req_method req = ''OPTIONS'' \<Longrightarrow> resp_headers (response (serve rt req)) = cors_headers"
  by (simp add: serve_def new_Response_def)

lemma options_body:
  "req_method req = ''OPTIONS'' \<Longrightarrow> resp_body (response (serve rt req)) = NullBody"
  by (simp add: serve_def new_Response_def)

text \<open>
  Claim C7 as stated, for every response, the OPTIONS preflight included, fails: the
  response to an OPTIONS request has a null body and no \<open>Content-Type\<close> header.
\<close>

theorem options_response_no_content_type:
  "map_of (resp_headers (response (serve test_runtime
       \<lparr> req_method = ''OPTIONS'', req_json = Inl (JsError ''Unexpected end of JSON input'') \<rparr>)))
     ''Content-Type'' = None"
  by (simp add: handler_defs)

text \<open>
  Claim C7, amended. Every response to a request that is not an OPTIONS preflight
  (protocol errors, legacy responses, the 400 and the 500 responses included) carries both
  \<open>Content-Type: application/json\<close> and \<open>Access-Control-Allow-Origin: *\<close>; the response to an
  OPTIONS preflight has a null body and carries \<open>Access-Control-Allow-Origin: *\<close>,
  \<open>Access-Control-Allow-Methods: POST, GET, OPTIONS\<close> and
  \<open>Access-Control-Allow-Headers: Content-Type\<close>, and no \<open>Content-Type\<close>.
\<close>

theorem response_headers:
  "(req_method req \<noteq> ''OPTIONS'' \<longrightarrow>
      map_of (resp_headers (response (serve rt req))) ''Content-Type'' = Some ''application/json''
      \<and> map_of (resp_headers (response (serve rt req))) ''Access-Control-Allow-Origin'' = Some ''*'')
   \<and> (req_method req = ''OPTIONS'' \<longrightarrow>
      resp_body (response (serve rt req)) = NullBody
      \<and> map_of (resp_headers (response (serve rt req))) ''Access-Control-Allow-Origin'' = Some ''*''
      \<and> map_of (resp_headers (response (serve rt req))) ''Access-Control-Allow-Methods''
          = Some ''POST, GET, OPTIONS''
      \<and> map_of (resp_headers (response (serve rt req))) ''Access-Control-Allow-Headers''
          = Some ''Content-Type''
      \<and> map_of (resp_headers (response (serve rt req))) ''Content-Type'' = None)"
  by (simp add: serve_headers options_headers options_body json_headers_def cors_headers_def)

theorem response_headers_witness:
  "req_method (post JNull) \<noteq> ''OPTIONS''
   \<and> map_of (resp_headers (response (serve test_runtime (post JNull)))) ''Content-Type''
       = Some ''application/json''
   \<and> map_of (resp_headers (response (serve test_runtime (post JNull)))) ''Access-Control-Allow-Origin''
       = Some ''*''
   \<and> resp_status (response (serve test_runtime (post JNull))) = 500
   \<and> req_method \<lparr> req_method = ''OPTIONS'', req_json = Inl (JsError ''Unexpected end of JSON input'') \<rparr>
       = ''OPTIONS''
   \<and> response (serve test_runtime
         \<lparr> req_method = ''OPTIONS'', req_json = Inl (JsError ''Unexpected end of JSON input'') \<rparr>)
       = \<lparr> resp_body = NullBody, resp_status = 200,
           resp_headers = [(''Access-Control-Allow-Origin'', ''*''),
                           (''Access-Control-Allow-Methods'', ''POST, GET, OPTIONS''),
                           (''Access-Control-Allow-Headers'', ''Content-Type'')] \<rparr>"
  using response_headers [where req = "post JNull" and rt = test_runtime]
    response_headers [where req = "\<lparr> req_method = ''OPTIONS'', req_json = Inl (JsError ''Unexpected end of JSON input'') \<rparr>"
      and rt = test_runtime]
  by (simp add: handler_defs post_def)

section \<open>Outcomes of the vision client\<close>

text \<open>The fence markers are deleted wherever they stand, also inside the JSON text.\<close>

lemma replace_fences_interior: \<open>trim (replace_fences ''["```"]'') = ''[""]''\<close>
  by (simp add: client_defs)

text \<open>
  Claim C6 as stated fails twice. When the reply of the endpoint lacks the content, the
  message of the error is \<open>"No content in OpenAI response"\<close>, not
  \<open>"No content in response"\<close>. And the fence markers are not stripped at the two ends only:
  the content \<open>["```"]\<close> has no marker at either end, and parsing it gives the array that
  holds the string of three backticks, yet \<open>analyzeFoodImage\<close> returns the array that holds
  the empty string.
\<close>

theorem no_content_message_and_quoted_fence:
  \<open>analyzeFoodImage empty_reply_runtime pizza = Inl (JsError ''No content in OpenAI response'')
   \<and> analyzeFoodImage empty_reply_runtime pizza \<noteq> Inl (JsError ''No content in response'')
   \<and> JSON_parse quoted_fence_runtime ''["```"]'' = Inr (JArr [JStr ''```''])
   \<and> analyzeFoodImage quoted_fence_runtime pizza = Inr (JArr [JStr []])\<close>
  by (simp add: client_defs access_defs sample_defs)

text \<open>
  Claim C6, amended. When the outbound call returns a response \<open>r\<close>:
  if \<open>r\<close> is not a success, \<open>analyzeFoodImage\<close> fails with the message
  \<open>"OpenAI API error: "\<close> followed by the decimal status code;
  if \<open>r\<close> is a success whose JSON body is not \<open>null\<close> and whose
  \<open>choices?.[0]?.message?.content\<close> is absent or otherwise falsy, it fails with the message
  \<open>"No content in OpenAI response"\<close>;
  if that content is a non-empty string, it returns the outcome of \<open>JSON.parse\<close> on the
  content with every occurrence of the fence markers (three backticks, followed by \<open>json\<close> or
  not, and one newline after them) deleted and the white space at both ends trimmed: the
  parsed value, or the parse error.
\<close>

theorem analyzeFoodImage_outcomes:
  assumes "fetch rt ''https://api.openai.com/v1/chat/completions'' (vision_request rt imageUrl) = Inr r"
  shows "(\<not> ok r \<longrightarrow>
            analyzeFoodImage rt imageUrl = Inl (JsError (''OpenAI API error: '' @ show_nat (status r))))
     \<and> (ok r \<and> json r = Inr data \<and> \<not> nullish data
          \<and> \<not> truthy (opt_prop (opt_prop (opt_index0 (js_prop data ''choices'')) ''message'') ''content'')
          \<longrightarrow> analyzeFoodImage rt imageUrl = Inl (JsError ''No content in OpenAI response''))
     \<and> (ok r \<and> json r = Inr data \<and> \<not> nullish data
          \<and> opt_prop (opt_prop (opt_index0 (js_prop data ''choices'')) ''message'') ''content'' = JStr s
          \<and> s \<noteq> []
          \<longrightarrow> analyzeFoodImage rt imageUrl = JSON_parse rt (trim (replace_fences s)))"
  using assms by (simp add: analyzeFoodImage_def get_prop_def cleanedContent_def Let_def)

theorem analyzeFoodImage_outcomes_witness:
  \<open>fetch rejecting_runtime ''https://api.openai.com/v1/chat/completions'' (vision_request rejecting_runtime pizza)
     = Inr \<lparr> ok = False, status = 401, json = Inr (JObj []) \<rparr>
   \<and> analyzeFoodImage rejecting_runtime pizza = Inl (JsError ''OpenAI API error: 401'')
   \<and> fetch empty_reply_runtime ''https://api.openai.com/v1/chat/completions'' (vision_request empty_reply_runtime pizza)
     = Inr (reply_with (JObj []))
   \<and> ok (reply_with (JObj [])) \<and> json (reply_with (JObj [])) = Inr (JObj []) \<and> \<not> nullish (JObj [])
   \<and> \<not> truthy (opt_prop (opt_prop (opt_index0 (js_prop (JObj []) ''choices'')) ''message'') ''content'')
   \<and> analyzeFoodImage empty_reply_runtime pizza = Inl (JsError ''No content in OpenAI response'')
   \<and> fetch test_runtime ''https://api.openai.com/v1/chat/completions'' (vision_request test_runtime pizza)
     = Inr (reply_with (JObj [(''choices'', JArr [JObj [(''message'',
              JObj [(''role'', JStr ''assistant''), (''content'', JStr apple_reply)])]])]))
   \<and> opt_prop (opt_prop (opt_index0 (js_prop (JObj [(''choices'', JArr [JObj [(''message'',
              JObj [(''role'', JStr ''assistant''), (''content'', JStr apple_reply)])]])]) ''choices''))
          ''message'') ''content'' = JStr apple_reply
   \<and> apple_reply \<noteq> []
   \<and> trim (replace_fences apple_reply) = ''{"name":"Apple","calories":95}''
   \<and> analyzeFoodImage test_runtime pizza = Inr apple\<close>
  using analyzeFoodImage_outcomes [where rt = rejecting_runtime and imageUrl = pizza
      and r = "\<lparr> ok = False, status = 401, json = Inr (JObj []) \<rparr>"]
    analyzeFoodImage_outcomes [where rt = empty_reply_runtime and imageUrl = pizza
      and r = "reply_with (JObj [])" and data = "JObj []"]
    analyzeFoodImage_outcomes [where rt = test_runtime and imageUrl = pizza
      and r = "reply_with (JObj [(''choices'', JArr [JObj [(''message'',
              JObj [(''role'', JStr ''assistant''), (''content'', JStr apple_reply)])]])])"
      and data = "JObj [(''choices'', JArr [JObj [(''message'',
              JObj [(''role'', JStr ''assistant''), (''content'', JStr apple_reply)])]])]"
      and s = apple_reply]
  by (simp add: client_defs access_defs sample_defs show_nat.simps digit_char_def)

end

